theory Spec2Isabelle
  imports Main "HOL-Library.Word"
begin

section \<open>The master-server client of goseq (master.go)\<close>

text \<open>
  A shallow embedding of \<^verbatim>\<open>master.go\<close>: the request encoder \<^verbatim>\<open>makerequest\<close>, the
  response decoder \<^verbatim>\<open>wireMasterResponse.Decode\<close>, one bounded exchange \<^verbatim>\<open>try\<close> and
  the failover loop of \<^verbatim>\<open>Query\<close>. Go strings and byte slices are lists of bytes;
  a nil slice or a nil error is \<open>None\<close>.
\<close>

subsection \<open>Constants and package-level variables\<close>

type_synonym byte = "8 word"

type_synonym Region = byte

definition USEast :: Region where "USEast = 0x00"
definition USWest :: Region where "USWest = 0x01"
definition SouthAmerica :: Region where "SouthAmerica = 0x02"
definition Europe :: Region where "Europe = 0x03"
definition Asia :: Region where "Asia = 0x04"
definition Australia :: Region where "Australia = 0x05"
definition MiddleEast :: Region where "MiddleEast = 0x06"
definition Africa :: Region where "Africa = 0x07"
definition RestOfWorld :: Region where "RestOfWorld = 0xFF"

definition Beggining :: string where
  "Beggining = ''0.0.0.0:0''"

definition masterRespHeaderLength :: nat where
  "masterRespHeaderLength = 6"


text \<open>
  The errors a call can return. \<open>err_timeout\<close> is the package's own sentinel, compared
  by identity in \<^verbatim>\<open>Query\<close>; \<open>io_EOF\<close> and \<open>io_ErrUnexpectedEOF\<close> are what
  \<^verbatim>\<open>binary.Read\<close> reports on a short input; \<open>net_error\<close> stands for any error of the
  \<^verbatim>\<open>net\<close> package (resolution, dial, write, read).
\<close>

datatype error = err_timeout | io_EOF | io_ErrUnexpectedEOF | net_error string

text \<open>
  The two mutable package-level variables: the pool of master servers and the index of
  the server a new client starts with.
\<close>

record globals =
  MasterSourceServers :: "string list"
  favored_server :: int

definition init_globals :: globals where
  "init_globals =
     \<lparr> MasterSourceServers =
         [''68.177.101.62:27011'', ''69.28.158.131:27011'',
          ''208.64.200.117:27011'', ''208.64.200.118:27011''],
       favored_server = 2 \<rparr>"

subsection \<open>The client\<close>

text \<open>
  \<^verbatim>\<open>Filter\<close> is declared elsewhere in the package: the client is polymorphic in it, and
  the functions that need \<^verbatim>\<open>NewFilter\<close> or \<^verbatim>\<open>GetFilterFormat\<close> take them as
  parameters. The two connection fields hold the address they were made from, \<open>None\<close>
  when nil.
\<close>

record 'f master =
  filter_m :: 'f
  addr :: string
  master_index :: int
  region :: Region
  remoteAddr :: "string option"
  remoteConn :: "string option"

text \<open>
  \<^verbatim>\<open>NewMasterServer\<close> indexes the pool with \<^verbatim>\<open>favored_server\<close>; an index outside the
  pool is a run-time panic, here \<open>None\<close>.
\<close>

definition NewMasterServer :: "'f \<Rightarrow> globals \<Rightarrow> 'f master option" where
  "NewMasterServer NewFilter g =
     (if 0 \<le> favored_server g \<and> favored_server g < int (length (MasterSourceServers g))
      then Some
        \<lparr> filter_m = NewFilter,
          addr = MasterSourceServers g ! nat (favored_server g),
          master_index = favored_server g,
          region = USWest,
          remoteAddr = None,
          remoteConn = None \<rparr>
      else None)"

definition SetFilter :: "'f \<Rightarrow> 'f master \<Rightarrow> 'f master" where
  "SetFilter f m = m\<lparr>filter_m := f\<rparr>"

definition GetFilter :: "'f master \<Rightarrow> 'f" where
  "GetFilter m = filter_m m"

definition SetAddr :: "string \<Rightarrow> 'f master \<Rightarrow> 'f master" where
  "SetAddr i m = m\<lparr>addr := i, remoteAddr := None\<rparr>"

definition GetAddr :: "'f master \<Rightarrow> string" where
  "GetAddr m = addr m"

definition SetRegion :: "Region \<Rightarrow> 'f master \<Rightarrow> 'f master" where
  "SetRegion i m = m\<lparr>region := i\<rparr>"

definition GetRegion :: "'f master \<Rightarrow> Region" where
  "GetRegion m = region m"

subsection \<open>Encoding the request\<close>

text \<open>
  \<^verbatim>\<open>bytes.Buffer\<close> as the list of bytes written so far. A Go string is a sequence of
  bytes, here a \<open>string\<close> whose characters are those bytes.
\<close>

type_synonym Buffer = "byte list"

definition NewBuffer :: "byte list \<Rightarrow> Buffer" where
  "NewBuffer bs = bs"

definition WriteByte :: "byte \<Rightarrow> Buffer \<Rightarrow> Buffer" where
  "WriteByte b buf = buf @ [b]"

definition string_bytes :: "string \<Rightarrow> byte list" where
  "string_bytes s = map (\<lambda>c. of_nat (of_char c)) s"

definition bytes_string :: "byte list \<Rightarrow> string" where
  "bytes_string bs = map (\<lambda>b. char_of (unat b)) bs"

definition WriteString :: "string \<Rightarrow> Buffer \<Rightarrow> Buffer" where
  "WriteString s buf = buf @ string_bytes s"

definition Bytes :: "Buffer \<Rightarrow> byte list" where
  "Bytes buf = buf"

definition makerequest :: "('f \<Rightarrow> byte list) \<Rightarrow> 'f master \<Rightarrow> string \<Rightarrow> byte list" where
  "makerequest GetFilterFormat m ip =
     (let packet = NewBuffer [];
          packet = WriteByte 0x31 packet;
          packet = WriteByte (region m) packet;
          packet = WriteString ip packet;
          packet = WriteByte 0x0 packet;
          packet = WriteString (bytes_string (GetFilterFormat (filter_m m))) packet;
          req = Bytes packet
      in req)"

subsection \<open>Decoding the response\<close>

record wireIP =
  o1 :: byte
  o2 :: byte
  o3 :: byte
  o4 :: byte
  port :: "16 word"

text \<open>\<^verbatim>\<open>%d\<close> of an unsigned value: its decimal digits, no padding.\<close>

function show_dec :: "nat \<Rightarrow> string" where
  "show_dec n =
     (if n < 10 then [char_of (48 + n)]
      else show_dec (n div 10) @ [char_of (48 + n mod 10)])"
  by pat_completeness auto
termination
  by (relation "measure id") auto

definition wireIP_String :: "wireIP \<Rightarrow> string" where
  "wireIP_String p =
     show_dec (unat (o1 p)) @ ''.'' @ show_dec (unat (o2 p)) @ ''.'' @
     show_dec (unat (o3 p)) @ ''.'' @ show_dec (unat (o4 p)) @ '':'' @
     show_dec (unat (port p))"

record wireMasterResponse =
  magic :: "byte list"
  ips :: "wireIP list"

text \<open>The zero value \<^verbatim>\<open>wireMasterResponse{}\<close>: six zero bytes and a nil slice.\<close>

definition zero_wireMasterResponse :: wireMasterResponse where
  "zero_wireMasterResponse = \<lparr> magic = replicate masterRespHeaderLength 0, ips = [] \<rparr>"

text \<open>
  \<^verbatim>\<open>binary.Read\<close> into a struct of one six-byte array reads exactly six bytes with
  \<^verbatim>\<open>io.ReadFull\<close>: no byte at all is \<^verbatim>\<open>io.EOF\<close>, fewer than six is
  \<^verbatim>\<open>io.ErrUnexpectedEOF\<close>, and the byte order plays no part for single bytes. The
  function returns the error or the bytes read, and what is left in the reader.
\<close>

definition binary_Read_head :: "byte list \<Rightarrow> (error + byte list) \<times> byte list" where
  "binary_Read_head packet =
     (if length packet = 0 then (Inl io_EOF, [])
      else if length packet < masterRespHeaderLength then (Inl io_ErrUnexpectedEOF, [])
      else (Inr (take masterRespHeaderLength packet), drop masterRespHeaderLength packet))"

definition Decode :: "wireMasterResponse \<Rightarrow> byte list \<Rightarrow> wireMasterResponse \<times> error option" where
  "Decode r packet =
     (case fst (binary_Read_head packet) of
        Inl err \<Rightarrow> (r, Some err)
      | Inr h \<Rightarrow> (r\<lparr>magic := h\<rparr>, None))"

subsection \<open>One bounded exchange\<close>

text \<open>
  What the network does in one call of \<^verbatim>\<open>try\<close> is not decided by the program: it is
  a value of the environment. \<open>timer_first\<close> says that the select statement took the
  timer's message; the other fields say how each step of the exchange goroutine ends:
  the error of \<^verbatim>\<open>ResolveUDPAddr\<close>, of \<^verbatim>\<open>DialUDP\<close>, of \<^verbatim>\<open>Write\<close>, and the datagram and
  error of \<^verbatim>\<open>Read\<close>.
\<close>

record exchange =
  timer_first :: bool
  resolve_err :: "error option"
  dial_err :: "error option"
  write_err :: "error option"
  read_data :: "byte list"
  read_err :: "error option"

definition refreshConnection :: "exchange \<Rightarrow> 'f master \<Rightarrow> 'f master \<times> error option" where
  "refreshConnection x m =
     (if remoteAddr m = None \<or> remoteConn m = None then
        (case resolve_err x of
           Some err \<Rightarrow> (m\<lparr>remoteAddr := None\<rparr>, Some err)
         | None \<Rightarrow>
            (case dial_err x of
               Some err \<Rightarrow> (m\<lparr>remoteAddr := None, remoteConn := None\<rparr>, Some err)
             | None \<Rightarrow> (m\<lparr>remoteAddr := Some (addr m), remoteConn := Some (addr m)\<rparr>, None)))
      else (m, None))"

text \<open>The response buffer of \<^verbatim>\<open>Query\<close>: \<^verbatim>\<open>[1024 * 1024 * 2]byte\<close>.\<close>

definition respbuffer_len :: nat where
  "respbuffer_len = 1024 * 1024 * 2"

text \<open>
  \<^verbatim>\<open>try\<close> returns the error and the count \<open>n\<close> of bytes read; the model returns the
  client, the error and the first \<open>n\<close> bytes of the buffer, the only part of it that
  \<^verbatim>\<open>Query\<close> reads. A datagram longer than the buffer is cut to its length. The
  goroutine's writes to the connection fields are taken as done when the select returns,
  whichever message it took.
\<close>

definition master_try ::
  "exchange \<Rightarrow> byte list \<Rightarrow> 'f master \<Rightarrow> 'f master \<times> error option \<times> byte list" where
  "master_try x request m =
     (let (m1, e) = refreshConnection x m in
      if timer_first x then (m1, Some err_timeout, [])
      else
        (case e of
           Some err \<Rightarrow> (m1, Some err, [])
         | None \<Rightarrow>
            (case write_err x of
               Some err \<Rightarrow> (m1, Some err, [])
             | None \<Rightarrow> (m1, read_err x, take respbuffer_len (read_data x)))))"

subsection \<open>The failover loop\<close>

text \<open>
  \<^verbatim>\<open>int\<close> is 64 bits wide: addition wraps, and \<^verbatim>\<open>%\<close> truncates towards zero and panics
  on a zero divisor.
\<close>

definition wrap64 :: "int \<Rightarrow> int" where
  "wrap64 x = (x + 2 ^ 63) mod 2 ^ 64 - 2 ^ 63"

definition go_rem :: "int \<Rightarrow> int \<Rightarrow> int" where
  "go_rem a b = sgn a * (\<bar>a\<bar> mod \<bar>b\<bar>)"

datatype Server = iserver string

text \<open>
  What a call of \<^verbatim>\<open>Query\<close> leaves behind: the package variables, the client, the two
  returned values, and the client as it was at each call of \<^verbatim>\<open>try\<close>, in order. A
  run-time panic is \<open>Panic\<close>.
\<close>

datatype 'f result =
    Result (globals_of: globals) (client_of: "'f master") (servers_of: "Server list option")
      (error_of: "error option") (attempts_of: "'f master list")
  | Panic

text \<open>The statements of \<^verbatim>\<open>Query\<close> after the loop.\<close>

definition Query_decode :: "globals \<Rightarrow> 'f master \<Rightarrow> byte list \<Rightarrow> 'f master list \<Rightarrow> 'f result" where
  "Query_decode g m respbuffer tried =
     (case Decode zero_wireMasterResponse respbuffer of
        (resp, Some err) \<Rightarrow> Result g m None (Some err) tried
      | (resp, None) \<Rightarrow>
          Result g m (Some (map (\<lambda>ip. iserver (wireIP_String ip)) (ips resp))) None tried)"

text \<open>
  One pass through the body of the \<^verbatim>\<open>for\<close> loop, and how it leaves the body: the
  next iteration (\<open>Next\<close>, after a timeout), \<^verbatim>\<open>break\<close> with the bytes read, a
  \<^verbatim>\<open>return\<close> with the two returned values, or a run-time panic.
\<close>

datatype 'f ctl =
    Next globals "'f master"
  | Break "'f master" "byte list"
  | Return globals "'f master" "Server list option" "error option"
  | Crash

definition Query_body :: "exchange \<Rightarrow> int \<Rightarrow> byte list \<Rightarrow> globals \<Rightarrow> 'f master \<Rightarrow> 'f ctl" where
  "Query_body x start_indice reqpacket g m =
     (case master_try x reqpacket m of
        (m1, e, respbuffer) \<Rightarrow>
          if e = Some err_timeout then
            (if length (MasterSourceServers g) = 0 then Crash
             else
               let i = go_rem (wrap64 (master_index m1 + 1)) (int (length (MasterSourceServers g)))
               in if \<not> (0 \<le> i \<and> i < int (length (MasterSourceServers g))) then Crash
                  else
                    let m2 = m1\<lparr>master_index := i, addr := MasterSourceServers g ! nat i\<rparr>
                    in if master_index m2 = start_indice
                       then Return g m2 None (Some err_timeout)
                       else Next (g\<lparr>favored_server := master_index m2\<rparr>)
                              (m2\<lparr>remoteAddr := None\<rparr>))
          else if e \<noteq> None then Return g m1 None e
          else Break m1 respbuffer)"

text \<open>
  The loop from its \<open>k\<close>-th iteration on, followed by the rest of \<^verbatim>\<open>Query\<close>;
  \<open>net k\<close> is what the network does at the \<open>k\<close>-th call of \<^verbatim>\<open>try\<close>, given the
  request sent. The loop has no bound of its own, so the function is partial: \<open>None\<close>
  is a call that never returns.
\<close>

partial_function (option) Query_loop ::
  "(nat \<Rightarrow> byte list \<Rightarrow> exchange) \<Rightarrow> int \<Rightarrow> byte list \<Rightarrow> nat \<Rightarrow> globals \<Rightarrow> 'f master
     \<Rightarrow> 'f master list \<Rightarrow> 'f result option" where
  "Query_loop net start_indice reqpacket k g m tried =
     (case Query_body (net k reqpacket) start_indice reqpacket g m of
        Next g' m' \<Rightarrow> Query_loop net start_indice reqpacket (k + 1) g' m' (tried @ [m])
      | Break m1 respbuffer \<Rightarrow> Some (Query_decode g m1 respbuffer (tried @ [m]))
      | Return g' m' srv e \<Rightarrow> Some (Result g' m' srv e (tried @ [m]))
      | Crash \<Rightarrow> Some Panic)"

definition Query ::
  "('f \<Rightarrow> byte list) \<Rightarrow> (nat \<Rightarrow> byte list \<Rightarrow> exchange) \<Rightarrow> globals \<Rightarrow> 'f master \<Rightarrow> string
     \<Rightarrow> 'f result option" where
  "Query GetFilterFormat net g m at =
     (let reqpacket = makerequest GetFilterFormat m at;
          start_indice = master_index m
      in Query_loop net start_indice reqpacket 0 g m [])"

subsection \<open>Example clients and networks\<close>

text \<open>
  The inputs of the worked examples: a filter that is its own token, the client that
  \<^verbatim>\<open>NewMasterServer\<close> builds from the initial package variables, the same client after
  \<^verbatim>\<open>SetAddr\<close>, and networks that do the same thing at every attempt.
\<close>

definition raw_filter :: "byte list \<Rightarrow> byte list" where
  "raw_filter f = f"

definition default_client :: "byte list master" where
  "default_client =
     \<lparr> filter_m = [], addr = ''208.64.200.117:27011'', master_index = 2, region = USWest,
       remoteAddr = None, remoteConn = None \<rparr>"

definition custom_client :: "byte list master" where
  "custom_client = SetAddr ''10.0.0.1:27015'' default_client"

definition timeout_exchange :: exchange where
  "timeout_exchange =
     \<lparr> timer_first = True, resolve_err = None, dial_err = None, write_err = None,
       read_data = [], read_err = None \<rparr>"


definition refused_exchange :: exchange where
  "refused_exchange =
     \<lparr> timer_first = False, resolve_err = None, dial_err = None, write_err = None,
       read_data = [], read_err = Some (net_error ''connection refused'') \<rparr>"

definition always :: "exchange \<Rightarrow> nat \<Rightarrow> byte list \<Rightarrow> exchange" where
  "always x k request = x"

subsection \<open>Auxiliary facts\<close>

lemma byte_char_byte: "of_nat (of_char (char_of (unat (b :: byte)))) = b"
proof -
  have "unat b < 256"
    using unsigned_less [of b, where ?'a = nat] by simp
  then show ?thesis by simp
qed

lemma string_bytes_bytes_string: "string_bytes (bytes_string bs) = bs"
  by (induction bs) (simp_all add: string_bytes_def bytes_string_def byte_char_byte del: of_char_of)

lemma wrap64_id: "- (2 ^ 63) \<le> x \<Longrightarrow> x < 2 ^ 63 \<Longrightarrow> wrap64 x = x"
  by (simp add: wrap64_def)

lemma go_rem_nonneg: "0 \<le> a \<Longrightarrow> 0 < b \<Longrightarrow> go_rem a b = a mod b"
  by (cases "a = 0") (simp_all add: go_rem_def)

lemma refreshConnection_frame:
  "master_index (fst (refreshConnection x m)) = master_index m"
  "addr (fst (refreshConnection x m)) = addr m"
  "region (fst (refreshConnection x m)) = region m"
  "filter_m (fst (refreshConnection x m)) = filter_m m"
  by (simp_all add: refreshConnection_def split: option.splits)

lemma fst_master_try: "fst (master_try x req m) = fst (refreshConnection x m)"
  by (simp add: master_try_def split: prod.splits option.splits)

lemma master_try_frameD:
  assumes "master_try x req m = (m1, e, buf)"
  shows "master_index m1 = master_index m" "addr m1 = addr m"
    "region m1 = region m" "filter_m m1 = filter_m m"
proof -
  have "m1 = fst (refreshConnection x m)"
    using fst_master_try [of x req m] assms by simp
  then show "master_index m1 = master_index m" "addr m1 = addr m"
    "region m1 = region m" "filter_m m1 = filter_m m"
    by (simp_all add: refreshConnection_frame)
qed

lemma master_try_timeout:
  "timer_first x \<Longrightarrow> master_try x req m = (fst (refreshConnection x m), Some err_timeout, [])"
  by (simp add: master_try_def split: prod.splits)

lemma Decode_error: "Decode r p = (r', Some e) \<Longrightarrow> e \<noteq> err_timeout"
  by (auto simp: Decode_def binary_Read_head_def split: if_splits sum.splits)

lemma Query_decode_cases:
  "Query_decode g m buf tried = Result g' m' srv e tried' \<Longrightarrow>
     g' = g \<and> m' = m \<and> tried' = tried \<and> e \<noteq> Some err_timeout \<and> (e \<noteq> None \<longrightarrow> srv = None)"
  by (auto simp: Query_decode_def split: prod.splits option.splits dest: Decode_error)

lemma Query_body_timeout:
  assumes t: "timer_first x"
    and len: "int (length (MasterSourceServers g)) < 2 ^ 63"
    and lo: "0 \<le> master_index m"
    and hi: "master_index m < int (length (MasterSourceServers g))"
  shows "Query_body x s req g m =
     (let i = (master_index m + 1) mod int (length (MasterSourceServers g));
          m2 = (fst (refreshConnection x m))
                  \<lparr>master_index := i, addr := MasterSourceServers g ! nat i\<rparr>
      in if i = s then Return g m2 None (Some err_timeout)
         else Next (g\<lparr>favored_server := i\<rparr>) (m2\<lparr>remoteAddr := None\<rparr>))"
proof -
  let ?L = "int (length (MasterSourceServers g))"
  have pos: "0 < ?L" using lo hi by linarith
  have w: "wrap64 (master_index m + 1) = master_index m + 1"
  proof (rule wrap64_id)
    show "- (2 ^ 63) \<le> master_index m + 1" using lo by simp
    show "master_index m + 1 < 2 ^ 63" using hi len by linarith
  qed
  have r: "go_rem (master_index m + 1) ?L = (master_index m + 1) mod ?L"
    using lo pos by (intro go_rem_nonneg) linarith+
  have b: "0 \<le> (master_index m + 1) mod ?L" "(master_index m + 1) mod ?L < ?L"
    using pos by simp_all
  have ne: "MasterSourceServers g \<noteq> []" using pos by auto
  show ?thesis
    by (simp add: Query_body_def master_try_timeout [OF t] refreshConnection_frame w r b ne Let_def)
qed

lemma Query_body_Next:
  assumes "Query_body x s req g m = Next g' m'"
  shows "region m' = region m" "filter_m m' = filter_m m"
    "MasterSourceServers g' = MasterSourceServers g"
  using assms
  by (auto simp: Query_body_def Let_def split: prod.splits if_splits dest: master_try_frameD)

lemma Query_body_Break:
  assumes "Query_body x s req g m = Break m1 buf"
  shows "region m1 = region m" "filter_m m1 = filter_m m"
    "master_index m1 = master_index m" "addr m1 = addr m"
  using assms
  by (auto simp: Query_body_def Let_def split: prod.splits if_splits dest: master_try_frameD)

lemma Query_body_Return:
  assumes "Query_body x s req g m = Return g' m' srv e"
  shows "region m' = region m" "filter_m m' = filter_m m" "g' = g" "srv = None" "e \<noteq> None"
  using assms
  by (auto simp: Query_body_def Let_def split: prod.splits if_splits dest: master_try_frameD)

lemma Query_body_Return_timeout:
  assumes "Query_body x s req g m = Return g' m' srv (Some err_timeout)"
  shows "master_index m' = s" "0 \<le> s" "s < int (length (MasterSourceServers g))"
    "addr m' = MasterSourceServers g ! nat s"
  using assms
  by (auto simp: Query_body_def Let_def split: prod.splits if_splits)

lemmas Query_loop_induct = Query_loop.raw_induct [rotated 1, consumes 1, case_names body]

lemma Query_loop_post_aux:
  assumes "Query_loop net s req k g m tried = Some r"
  shows "\<forall>g' m' srv e tried'. r = Result g' m' srv e tried' \<longrightarrow>
     region m' = region m \<and> filter_m m' = filter_m m \<and>
     MasterSourceServers g' = MasterSourceServers g \<and>
     (e \<noteq> None \<longrightarrow> srv = None) \<and>
     (e = Some err_timeout \<longrightarrow>
        master_index m' = s \<and> 0 \<le> s \<and> s < int (length (MasterSourceServers g)) \<and>
        addr m' = MasterSourceServers g ! nat s)"
  using assms
proof (induction rule: Query_loop_induct)
  case (body loop net s req k g m tried r)
  show ?case
  proof (cases "Query_body (net k req) s req g m")
    case (Next g1 m1)
    then have rec: "loop net s req (k + 1) g1 m1 (tried @ [m]) = Some r"
      using body.hyps by simp
    note ih = body.IH [OF rec]
    note fr = Query_body_Next [OF Next]
    show ?thesis
      using ih unfolding fr .
  next
    case (Break m1 buf)
    then have r: "Query_decode g m1 buf (tried @ [m]) = r"
      using body.hyps by simp
    note fr = Query_body_Break [OF Break]
    show ?thesis
    proof (intro allI impI)
      fix g' m' srv e tried'
      assume "r = Result g' m' srv e tried'"
      with r have "Query_decode g m1 buf (tried @ [m]) = Result g' m' srv e tried'" by simp
      from Query_decode_cases [OF this]
      have "g' = g" "m' = m1" "e \<noteq> Some err_timeout" "e \<noteq> None \<longrightarrow> srv = None"
        by simp_all
      then show "region m' = region m \<and> filter_m m' = filter_m m \<and>
          MasterSourceServers g' = MasterSourceServers g \<and>
          (e \<noteq> None \<longrightarrow> srv = None) \<and>
          (e = Some err_timeout \<longrightarrow>
             master_index m' = s \<and> 0 \<le> s \<and> s < int (length (MasterSourceServers g)) \<and>
             addr m' = MasterSourceServers g ! nat s)"
        using fr by simp
    qed
  next
    case (Return g1 m1 srv e)
    then have r: "r = Result g1 m1 srv e (tried @ [m])"
      using body.hyps by simp
    note fr = Query_body_Return [OF Return]
    have "e = Some err_timeout \<longrightarrow>
        master_index m1 = s \<and> 0 \<le> s \<and> s < int (length (MasterSourceServers g)) \<and>
        addr m1 = MasterSourceServers g ! nat s"
      using Query_body_Return_timeout [of "net k req" s req g m g1 m1 srv] Return by blast
    then show ?thesis
      using r fr by simp
  next
    case Crash
    then have "r = Panic" using body.hyps by simp
    then show ?thesis by simp
  qed
qed

lemma Query_loop_post:
  assumes "Query_loop net s req k g m tried = Some (Result g' m' srv e tried')"
  shows "region m' = region m" "filter_m m' = filter_m m"
     "MasterSourceServers g' = MasterSourceServers g"
     "e \<noteq> None \<Longrightarrow> srv = None"
     "e = Some err_timeout \<Longrightarrow>
        master_index m' = s \<and> 0 \<le> s \<and> s < int (length (MasterSourceServers g)) \<and>
        addr m' = MasterSourceServers g ! nat s"
  using Query_loop_post_aux [OF assms] by simp_all

lemma NewMasterServer_default: "NewMasterServer [] init_globals = Some default_client"
  by (simp add: NewMasterServer_def init_globals_def default_client_def)

text \<open>\<^verbatim>\<open>Query\<close> is the loop entered at its first iteration with nothing tried yet.\<close>

lemma Query_loop_start:
  "Query GetFilterFormat net g m at =
     Query_loop net (master_index m) (makerequest GetFilterFormat m at) 0 g m []"
  by (simp add: Query_def Let_def)

lemma Query_loop_Return_eq:
  "Query_body (net k req) s req g m = Return g' m' srv e \<Longrightarrow>
     Query_loop net s req k g m tried = Some (Result g' m' srv e (tried @ [m]))"
  by (subst Query_loop.simps) simp








lemma Query_body_timeout_try:
  assumes t: "master_try x req m = (m1, Some err_timeout, buf)"
    and len: "int (length (MasterSourceServers g)) < 2 ^ 63"
    and lo: "0 \<le> master_index m"
    and hi: "master_index m < int (length (MasterSourceServers g))"
  shows "Query_body x s req g m =
     (let i = (master_index m + 1) mod int (length (MasterSourceServers g));
          m2 = m1\<lparr>master_index := i, addr := MasterSourceServers g ! nat i\<rparr>
      in if i = s then Return g m2 None (Some err_timeout)
         else Next (g\<lparr>favored_server := i\<rparr>) (m2\<lparr>remoteAddr := None\<rparr>))"
proof -
  let ?L = "int (length (MasterSourceServers g))"
  have pos: "0 < ?L" using lo hi by linarith
  have idx: "master_index m1 = master_index m"
    using master_try_frameD(1) [OF t] .
  have w: "wrap64 (master_index m + 1) = master_index m + 1"
  proof (rule wrap64_id)
    show "- (2 ^ 63) \<le> master_index m + 1" using lo by simp
    show "master_index m + 1 < 2 ^ 63" using hi len by linarith
  qed
  have r: "go_rem (master_index m + 1) ?L = (master_index m + 1) mod ?L"
    using lo pos by (intro go_rem_nonneg) linarith+
  have b: "0 \<le> (master_index m + 1) mod ?L" "(master_index m + 1) mod ?L < ?L"
    using pos by simp_all
  have ne: "MasterSourceServers g \<noteq> []" using pos by auto
  show ?thesis
    by (simp add: Query_body_def t idx w r b ne Let_def)
qed

lemma refresh_timeout_exchange:
  "remoteAddr m = None \<Longrightarrow>
     fst (refreshConnection timeout_exchange m) =
       m\<lparr>remoteAddr := Some (addr m), remoteConn := Some (addr m)\<rparr>"
  by (simp add: refreshConnection_def timeout_exchange_def)

lemma Query_all_timeout_from_2:
  "Query GetFilterFormat (always timeout_exchange) init_globals
      \<lparr>filter_m = f, addr = a, master_index = 2, region = rg,
       remoteAddr = None, remoteConn = None\<rparr> at =
     Some (Result (init_globals\<lparr>favored_server := 1\<rparr>)
       \<lparr>filter_m = f, addr = ''208.64.200.117:27011'', master_index = 2, region = rg,
        remoteAddr = Some ''69.28.158.131:27011'', remoteConn = Some ''69.28.158.131:27011''\<rparr>
       None (Some err_timeout)
       [\<lparr>filter_m = f, addr = a, master_index = 2, region = rg,
         remoteAddr = None, remoteConn = None\<rparr>,
        \<lparr>filter_m = f, addr = ''208.64.200.118:27011'', master_index = 3, region = rg,
         remoteAddr = None, remoteConn = Some a\<rparr>,
        \<lparr>filter_m = f, addr = ''68.177.101.62:27011'', master_index = 0, region = rg,
         remoteAddr = None, remoteConn = Some ''208.64.200.118:27011''\<rparr>,
        \<lparr>filter_m = f, addr = ''69.28.158.131:27011'', master_index = 1, region = rg,
         remoteAddr = None, remoteConn = Some ''68.177.101.62:27011''\<rparr>])"
proof -
  have t: "timer_first timeout_exchange"
    by (simp add: timeout_exchange_def)
  have a: "always timeout_exchange k r = timeout_exchange" for k r
    by (simp add: always_def)
  have len: "length (MasterSourceServers init_globals) = 4"
    by (simp add: init_globals_def)
  have p: "MasterSourceServers init_globals ! 0 = ''68.177.101.62:27011''"
    "MasterSourceServers init_globals ! Suc 0 = ''69.28.158.131:27011''"
    "MasterSourceServers init_globals ! 2 = ''208.64.200.117:27011''"
    "MasterSourceServers init_globals ! 3 = ''208.64.200.118:27011''"
    by (simp_all add: init_globals_def)
  show ?thesis
    unfolding Query_def Let_def
    by (simp add: Query_loop.simps [of "always timeout_exchange"] Query_body_timeout t a len p
        refresh_timeout_exchange)
qed

lemma makerequest_bytes:
  "makerequest GetFilterFormat m s =
     [0x31, region m] @ string_bytes s @ [0x00] @ GetFilterFormat (filter_m m)"
  by (simp add: makerequest_def NewBuffer_def WriteByte_def WriteString_def Bytes_def
      string_bytes_bytes_string)

lemma default_client_record:
  "default_client =
     \<lparr>filter_m = [], addr = ''208.64.200.117:27011'', master_index = 2, region = USWest,
      remoteAddr = None, remoteConn = None\<rparr>"
  by (simp add: default_client_def)

lemma custom_client_record:
  "custom_client =
     \<lparr>filter_m = [], addr = ''10.0.0.1:27015'', master_index = 2, region = USWest,
      remoteAddr = None, remoteConn = None\<rparr>"
  by (simp add: custom_client_def SetAddr_def default_client_def)

lemma Query_default_all_timeout:
  "Query raw_filter (always timeout_exchange) init_globals default_client Beggining =
     Some (Result (init_globals\<lparr>favored_server := 1\<rparr>)
       (default_client\<lparr>remoteAddr := Some ''69.28.158.131:27011'',
                       remoteConn := Some ''69.28.158.131:27011''\<rparr>)
       None (Some err_timeout)
       [default_client,
        default_client\<lparr>addr := ''208.64.200.118:27011'', master_index := 3,
                       remoteConn := Some ''208.64.200.117:27011''\<rparr>,
        default_client\<lparr>addr := ''68.177.101.62:27011'', master_index := 0,
                       remoteConn := Some ''208.64.200.118:27011''\<rparr>,
        default_client\<lparr>addr := ''69.28.158.131:27011'', master_index := 1,
                       remoteConn := Some ''68.177.101.62:27011''\<rparr>])"
  unfolding default_client_record
  by (simp add: Query_all_timeout_from_2)

lemma Query_custom_all_timeout:
  "Query raw_filter (always timeout_exchange) init_globals custom_client Beggining =
     Some (Result (init_globals\<lparr>favored_server := 1\<rparr>)
       (default_client\<lparr>remoteAddr := Some ''69.28.158.131:27011'',
                       remoteConn := Some ''69.28.158.131:27011''\<rparr>)
       None (Some err_timeout)
       [custom_client,
        default_client\<lparr>addr := ''208.64.200.118:27011'', master_index := 3,
                       remoteConn := Some ''10.0.0.1:27015''\<rparr>,
        default_client\<lparr>addr := ''68.177.101.62:27011'', master_index := 0,
                       remoteConn := Some ''208.64.200.118:27011''\<rparr>,
        default_client\<lparr>addr := ''69.28.158.131:27011'', master_index := 1,
                       remoteConn := Some ''68.177.101.62:27011''\<rparr>])"
  unfolding default_client_record custom_client_record
  by (simp add: Query_all_timeout_from_2)

lemma refused_try:
  "master_try (always refused_exchange k req) req default_client =
     (default_client\<lparr>remoteAddr := Some ''208.64.200.117:27011'',
                     remoteConn := Some ''208.64.200.117:27011''\<rparr>,
      Some (net_error ''connection refused''), [])"
  by (simp add: always_def master_try_def refused_exchange_def refreshConnection_def
      default_client_def respbuffer_len_def)

lemma Query_default_refused:
  "Query raw_filter (always refused_exchange) init_globals default_client Beggining =
     Some (Result init_globals
       (default_client\<lparr>remoteAddr := Some ''208.64.200.117:27011'',
                       remoteConn := Some ''208.64.200.117:27011''\<rparr>)
       None (Some (net_error ''connection refused'')) [default_client])"
proof -
  have "Query_body
      (always refused_exchange 0 (makerequest raw_filter default_client Beggining))
      (master_index default_client) (makerequest raw_filter default_client Beggining)
      init_globals default_client =
    Return init_globals
      (default_client\<lparr>remoteAddr := Some ''208.64.200.117:27011'',
                       remoteConn := Some ''208.64.200.117:27011''\<rparr>)
      None (Some (net_error ''connection refused''))"
    by (simp add: Query_body_def refused_try)
  from Query_loop_Return_eq [where net = "always refused_exchange" and k = 0, OF this]
  show ?thesis
    by (simp add: Query_def Let_def)
qed

section \<open>The claims\<close>

subsection \<open>C1: records after the header\<close>


subsection \<open>C2: four servers that all time out\<close>



subsection \<open>C3: a buffer that ends inside a record\<close>


subsection \<open>C4: the layout of the request\<close>

text \<open>
  Claim C4. For every region byte, starting address and filter token, the request is the
  byte \<open>0x31\<close>, the region byte, the bytes of the address, one zero byte, and the filter
  token as it is. For region \<open>0x01\<close>, the address \<open>0.0.0.0:0\<close> and an empty token these
  are the twelve bytes \<open>31 01 30 2E 30 2E 30 2E 30 3A 30 00\<close>.
\<close>

theorem makerequest_layout:
  "makerequest GetFilterFormat m s =
     [0x31, region m] @ string_bytes s @ [0x00] @ GetFilterFormat (filter_m m) \<and>
   makerequest raw_filter default_client Beggining =
     [0x31, 0x01, 0x30, 0x2E, 0x30, 0x2E, 0x30, 0x2E, 0x30, 0x3A, 0x30, 0x00]"
  by (simp add: makerequest_bytes raw_filter_def default_client_def Beggining_def USWest_def
      string_bytes_def)

subsection \<open>C5: what a timeout does to the index and to the favored server\<close>

text \<open>
  Claim C5 says that every advance of the index after a timeout is stored in
  \<^verbatim>\<open>favored_server\<close>. The advance that brings the index back to where the call started
  is not: \<^verbatim>\<open>Query\<close> returns before the assignment. A new client whose four exchanges all
  time out ends with index 2, and \<^verbatim>\<open>favored_server\<close> is 1.
\<close>

theorem Query_last_advance_not_persisted:
  "Query raw_filter (always timeout_exchange) init_globals default_client Beggining =
     Some (Result (init_globals\<lparr>favored_server := 1\<rparr>)
       (default_client\<lparr>remoteAddr := Some ''69.28.158.131:27011'',
                       remoteConn := Some ''69.28.158.131:27011''\<rparr>)
       None (Some err_timeout)
       [default_client,
        default_client\<lparr>addr := ''208.64.200.118:27011'', master_index := 3,
                       remoteConn := Some ''208.64.200.117:27011''\<rparr>,
        default_client\<lparr>addr := ''68.177.101.62:27011'', master_index := 0,
                       remoteConn := Some ''208.64.200.118:27011''\<rparr>,
        default_client\<lparr>addr := ''69.28.158.131:27011'', master_index := 1,
                       remoteConn := Some ''68.177.101.62:27011''\<rparr>]) \<and>
   master_index (default_client\<lparr>remoteAddr := Some ''69.28.158.131:27011'',
                       remoteConn := Some ''69.28.158.131:27011''\<rparr>) = 2 \<and>
   favored_server (init_globals\<lparr>favored_server := 1\<rparr>) \<noteq> 2"
  using Query_default_all_timeout
  by (simp add: default_client_def)

text \<open>
  Claim C5, amended. Whenever a call of \<^verbatim>\<open>try\<close> times out while the index is inside the
  pool, the index becomes the next one, wrapping modulo the length of the pool, and the
  address becomes the pool entry there. If the new index is not the index the call
  started with, it is stored in \<^verbatim>\<open>favored_server\<close>, the cached address is dropped and
  the loop goes on; if it is, \<^verbatim>\<open>Query\<close> returns the timeout error and
  \<^verbatim>\<open>favored_server\<close> keeps its value.
\<close>

theorem Query_timeout_advance:
  assumes t: "master_try (net k req) req m = (m1, Some err_timeout, buf)"
    and len: "int (length (MasterSourceServers g)) < 2 ^ 63"
    and lo: "0 \<le> master_index m"
    and hi: "master_index m < int (length (MasterSourceServers g))"
  shows "Query_loop net s req k g m tried =
     (let i = (master_index m + 1) mod int (length (MasterSourceServers g));
          m2 = m1\<lparr>master_index := i, addr := MasterSourceServers g ! nat i\<rparr>
      in if i = s then Some (Result g m2 None (Some err_timeout) (tried @ [m]))
         else Query_loop net s req (k + 1) (g\<lparr>favored_server := i\<rparr>)
                (m2\<lparr>remoteAddr := None\<rparr>) (tried @ [m]))"
  by (subst Query_loop.simps)
    (simp add: Query_body_timeout_try [OF t len lo hi] Let_def)

text \<open>The first timeout of a new client: from index 2 to 3, stored.\<close>

theorem Query_timeout_advance_witness:
  "master_try (always timeout_exchange 0 []) [] default_client =
     (default_client\<lparr>remoteAddr := Some ''208.64.200.117:27011'',
                     remoteConn := Some ''208.64.200.117:27011''\<rparr>, Some err_timeout, []) \<and>
   int (length (MasterSourceServers init_globals)) < 2 ^ 63 \<and>
   0 \<le> master_index default_client \<and>
   master_index default_client < int (length (MasterSourceServers init_globals)) \<and>
   Query_loop (always timeout_exchange) 2 [] 0 init_globals default_client [] =
     Query_loop (always timeout_exchange) 2 [] 1 (init_globals\<lparr>favored_server := 3\<rparr>)
       (default_client\<lparr>remoteConn := Some ''208.64.200.117:27011'',
                       master_index := 3, addr := ''208.64.200.118:27011''\<rparr>)
       [default_client]"
proof -
  have t: "master_try (always timeout_exchange 0 []) [] default_client =
     (default_client\<lparr>remoteAddr := Some ''208.64.200.117:27011'',
                     remoteConn := Some ''208.64.200.117:27011''\<rparr>, Some err_timeout, [])"
    by (simp add: always_def master_try_def timeout_exchange_def refreshConnection_def
        default_client_def)
  have len: "int (length (MasterSourceServers init_globals)) < 2 ^ 63"
    by (simp add: init_globals_def)
  have lo: "0 \<le> master_index default_client"
    and hi: "master_index default_client < int (length (MasterSourceServers init_globals))"
    by (simp_all add: default_client_def init_globals_def)
  show ?thesis
    using Query_timeout_advance [where net = "always timeout_exchange" and k = 0
        and req = "[]" and m = default_client and g = init_globals and s = 2 and tried = "[]",
        OF t len lo hi] t len lo hi
    by (simp add: init_globals_def default_client_def)
qed

subsection \<open>C6: an error that is not the timeout\<close>

text \<open>
  Claim C6. In any iteration of the loop of \<^verbatim>\<open>Query\<close>, the first one or a later one,
  whatever the state, if \<^verbatim>\<open>try\<close> returns an error other than the timeout error then
  \<^verbatim>\<open>Query\<close> returns a nil list and that error at once: the package variables are as
  they were, the index and the address of the client are those it had before the
  attempt, and the attempt is the last one made.
\<close>

theorem Query_other_error_returns:
  assumes t: "master_try (net k req) req m = (m1, Some e, buf)"
    and e: "e \<noteq> err_timeout"
  shows "Query_loop net s req k g m tried = Some (Result g m1 None (Some e) (tried @ [m])) \<and>
     master_index m1 = master_index m \<and> addr m1 = addr m"
proof -
  have "Query_body (net k req) s req g m = Return g m1 None (Some e)"
    using e by (simp add: Query_body_def t)
  then have "Query_loop net s req k g m tried = Some (Result g m1 None (Some e) (tried @ [m]))"
    by (rule Query_loop_Return_eq)
  then show ?thesis
    using master_try_frameD(1,2) [OF t] by simp
qed

text \<open>A read that is refused at the first attempt of a new client.\<close>

theorem Query_other_error_returns_witness:
  "master_try (always refused_exchange 0 (makerequest raw_filter default_client Beggining))
      (makerequest raw_filter default_client Beggining) default_client =
     (default_client\<lparr>remoteAddr := Some ''208.64.200.117:27011'',
                     remoteConn := Some ''208.64.200.117:27011''\<rparr>,
      Some (net_error ''connection refused''), []) \<and>
   net_error ''connection refused'' \<noteq> err_timeout \<and>
   Query raw_filter (always refused_exchange) init_globals default_client Beggining =
     Some (Result init_globals
       (default_client\<lparr>remoteAddr := Some ''208.64.200.117:27011'',
                       remoteConn := Some ''208.64.200.117:27011''\<rparr>)
       None (Some (net_error ''connection refused'')) [default_client])"
proof -
  note t = refused_try [of 0 "makerequest raw_filter default_client Beggining"]
  have e: "net_error ''connection refused'' \<noteq> err_timeout" by simp
  show ?thesis
    using Query_other_error_returns [where net = "always refused_exchange" and k = 0
        and req = "makerequest raw_filter default_client Beggining" and m = default_client
        and g = init_globals and s = "master_index default_client" and tried = "[]",
        OF t e] t
    by (simp add: Query_def Let_def)
qed

subsection \<open>C7: a response of the header alone\<close>



subsection \<open>C8: no list beside an error\<close>

text \<open>
  Claim C8. Whenever \<^verbatim>\<open>Query\<close> returns an error that is not nil, the list it returns is
  nil.
\<close>

theorem Query_error_nil_list:
  assumes "Query GetFilterFormat net g m at = Some (Result g' m' srv e tried)"
    and "e \<noteq> None"
  shows "srv = None"
proof -
  have "Query_loop net (master_index m) (makerequest GetFilterFormat m at) 0 g m [] =
      Some (Result g' m' srv e tried)"
    using assms(1) by (simp add: Query_def Let_def)
  from Query_loop_post(4) [OF this assms(2)] show ?thesis .
qed

text \<open>A new client whose first read is refused.\<close>

theorem Query_error_nil_list_witness:
  "Query raw_filter (always refused_exchange) init_globals default_client Beggining =
     Some (Result init_globals
       (default_client\<lparr>remoteAddr := Some ''208.64.200.117:27011'',
                       remoteConn := Some ''208.64.200.117:27011''\<rparr>)
       None (Some (net_error ''connection refused'')) [default_client]) \<and>
   Some (net_error ''connection refused'') \<noteq> None \<and>
   (None :: Server list option) = None"
proof -
  note h = Query_default_refused
  have e: "Some (net_error ''connection refused'') \<noteq> None" by simp
  show ?thesis
    using Query_error_nil_list [OF h e] h by simp
qed

subsection \<open>C9: the client after the pool is exhausted\<close>

text \<open>
  Claim C9 says that after an exhausted failover the index and the address of the client
  are what they were at the start of the call. The index is; the address is the pool
  entry at that index, which is not the starting address of a client that was given
  another address with \<^verbatim>\<open>SetAddr\<close>.
\<close>

theorem Query_timeout_changes_custom_addr:
  "Query raw_filter (always timeout_exchange) init_globals custom_client Beggining =
     Some (Result (init_globals\<lparr>favored_server := 1\<rparr>)
       (default_client\<lparr>remoteAddr := Some ''69.28.158.131:27011'',
                       remoteConn := Some ''69.28.158.131:27011''\<rparr>)
       None (Some err_timeout)
       [custom_client,
        default_client\<lparr>addr := ''208.64.200.118:27011'', master_index := 3,
                       remoteConn := Some ''10.0.0.1:27015''\<rparr>,
        default_client\<lparr>addr := ''68.177.101.62:27011'', master_index := 0,
                       remoteConn := Some ''208.64.200.118:27011''\<rparr>,
        default_client\<lparr>addr := ''69.28.158.131:27011'', master_index := 1,
                       remoteConn := Some ''68.177.101.62:27011''\<rparr>]) \<and>
   addr (default_client\<lparr>remoteAddr := Some ''69.28.158.131:27011'',
                        remoteConn := Some ''69.28.158.131:27011''\<rparr>) \<noteq>
     addr custom_client"
  using Query_custom_all_timeout
  by (simp add: custom_client_record default_client_record)

text \<open>
  Claim C9, amended. When \<^verbatim>\<open>Query\<close> returns the timeout error, the index of the client
  is the one it had at the start of the call, that index is inside the pool, and the
  address of the client is the pool entry at that index; so the address is also the
  starting one whenever the client started with the address of its index.
\<close>

theorem Query_timeout_restores_index:
  assumes "Query GetFilterFormat net g m at = Some (Result g' m' srv (Some err_timeout) tried)"
  shows "master_index m' = master_index m \<and>
     0 \<le> master_index m \<and> master_index m < int (length (MasterSourceServers g)) \<and>
     addr m' = MasterSourceServers g ! nat (master_index m) \<and>
     (addr m = MasterSourceServers g ! nat (master_index m) \<longrightarrow> addr m' = addr m)"
proof -
  have "Query_loop net (master_index m) (makerequest GetFilterFormat m at) 0 g m [] =
      Some (Result g' m' srv (Some err_timeout) tried)"
    using assms by (simp add: Query_def Let_def)
  from Query_loop_post(5) [OF this] show ?thesis by simp
qed

text \<open>A new client whose four exchanges all time out.\<close>

theorem Query_timeout_restores_index_witness:
  "Query raw_filter (always timeout_exchange) init_globals default_client Beggining =
     Some (Result (init_globals\<lparr>favored_server := 1\<rparr>)
       (default_client\<lparr>remoteAddr := Some ''69.28.158.131:27011'',
                       remoteConn := Some ''69.28.158.131:27011''\<rparr>)
       None (Some err_timeout)
       [default_client,
        default_client\<lparr>addr := ''208.64.200.118:27011'', master_index := 3,
                       remoteConn := Some ''208.64.200.117:27011''\<rparr>,
        default_client\<lparr>addr := ''68.177.101.62:27011'', master_index := 0,
                       remoteConn := Some ''208.64.200.118:27011''\<rparr>,
        default_client\<lparr>addr := ''69.28.158.131:27011'', master_index := 1,
                       remoteConn := Some ''68.177.101.62:27011''\<rparr>]) \<and>
   addr default_client = MasterSourceServers init_globals ! nat (master_index default_client) \<and>
   master_index (default_client\<lparr>remoteAddr := Some ''69.28.158.131:27011'',
                        remoteConn := Some ''69.28.158.131:27011''\<rparr>) = 2 \<and>
   addr (default_client\<lparr>remoteAddr := Some ''69.28.158.131:27011'',
                        remoteConn := Some ''69.28.158.131:27011''\<rparr>) = addr default_client"
proof -
  note h = Query_default_all_timeout
  have a: "addr default_client =
      MasterSourceServers init_globals ! nat (master_index default_client)"
    by (simp add: default_client_def init_globals_def)
  show ?thesis
    using Query_timeout_restores_index [OF h] h a
    by (simp add: default_client_def)
qed

subsection \<open>C10: region and filter\<close>

text \<open>
  Claim C10. Whatever \<^verbatim>\<open>Query\<close> returns, the region and the filter of the client after
  the call are those before it.
\<close>

theorem Query_keeps_region_filter:
  assumes "Query GetFilterFormat net g m at = Some (Result g' m' srv e tried)"
  shows "region m' = region m \<and> filter_m m' = filter_m m"
proof -
  have "Query_loop net (master_index m) (makerequest GetFilterFormat m at) 0 g m [] =
      Some (Result g' m' srv e tried)"
    using assms by (simp add: Query_def Let_def)
  from Query_loop_post(1,2) [OF this] show ?thesis by simp
qed

text \<open>A new client whose four exchanges all time out.\<close>

theorem Query_keeps_region_filter_witness:
  "Query raw_filter (always timeout_exchange) init_globals default_client Beggining =
     Some (Result (init_globals\<lparr>favored_server := 1\<rparr>)
       (default_client\<lparr>remoteAddr := Some ''69.28.158.131:27011'',
                       remoteConn := Some ''69.28.158.131:27011''\<rparr>)
       None (Some err_timeout)
       [default_client,
        default_client\<lparr>addr := ''208.64.200.118:27011'', master_index := 3,
                       remoteConn := Some ''208.64.200.117:27011''\<rparr>,
        default_client\<lparr>addr := ''68.177.101.62:27011'', master_index := 0,
                       remoteConn := Some ''208.64.200.118:27011''\<rparr>,
        default_client\<lparr>addr := ''69.28.158.131:27011'', master_index := 1,
                       remoteConn := Some ''68.177.101.62:27011''\<rparr>]) \<and>
   region (default_client\<lparr>remoteAddr := Some ''69.28.158.131:27011'',
                       remoteConn := Some ''69.28.158.131:27011''\<rparr>) = region default_client \<and>
   filter_m (default_client\<lparr>remoteAddr := Some ''69.28.158.131:27011'',
                       remoteConn := Some ''69.28.158.131:27011''\<rparr>) = filter_m default_client"
proof -
  note h = Query_default_all_timeout
  show ?thesis
    using Query_keeps_region_filter [OF h] h by simp
qed

end
